theory Spec2Isabelle
  imports Main "HOL-Library.Word"
begin

unbundle bit_operations_syntax

section \<open>Scalars, blocks and messages\<close>

text \<open>
  Modelled from the spec: the packages \<open>block\<close> and \<open>id\<close> are not part of the sources at
  hand. The spec (section 3) gives heights as unsigned 64-bit integers, rounds as signed
  64-bit integers with the sentinel \<open>InvalidRound = -1\<close>, hashes and signatories as
  fixed-width opaque identifiers with the all-zero \<open>InvalidHash\<close>. Rounds are compared
  with the signed orders \<open><s\<close> and \<open>\<le>s\<close>. A block carries \<open>Hash()\<close>, and in its header
  \<open>Height()\<close>, \<open>Round()\<close>, \<open>Signatories()\<close>; \<open>Equal\<close> on blocks is equality.
\<close>

type_synonym byte = "8 word"
type_synonym Height = "64 word"
type_synonym Round = "64 word"
type_synonym Hash = "256 word"
type_synonym Signatory = "256 word"

definition InvalidRound :: Round where
  "InvalidRound = - 1"

definition InvalidHash :: Hash where
  "InvalidHash = 0"

record Block =
  blkHash :: Hash
  blkHeight :: Height
  blkRound :: Round
  blkSignatories :: "Signatory list"

definition InvalidBlock :: Block where
  "InvalidBlock = \<lparr>blkHash = InvalidHash, blkHeight = 0, blkRound = 0, blkSignatories = []\<rparr>"

text \<open>\<open>type Step uint8\<close> with its four constants.\<close>

type_synonym Step = "8 word"

definition StepNil :: Step where "StepNil = 0"
definition StepPropose :: Step where "StepPropose = 1"
definition StepPrevote :: Step where "StepPrevote = 2"
definition StepPrecommit :: Step where "StepPrecommit = 3"

text \<open>
  Modelled from the spec: the message types and their constructors are not part of the
  sources at hand. By section 3 of the spec every message carries \<open>height\<close>, \<open>round\<close> and
  \<open>signatory\<close>, a vote its \<open>blockHash\<close>, a proposal its \<open>block\<close>, \<open>validRound\<close> and
  \<open>latestCommit\<close>. A new message has the zero signatory until the broadcaster signs it,
  and a new proposal an empty \<open>latestCommit\<close> until \<open>startRound\<close> attaches one.
\<close>

record Prevote =
  pvSignatory :: Signatory
  pvHeight :: Height
  pvRound :: Round
  pvBlockHash :: Hash

record Precommit =
  pcSignatory :: Signatory
  pcHeight :: Height
  pcRound :: Round
  pcBlockHash :: Hash

record LatestCommit =
  lcBlock :: Block
  lcPrecommits :: "Precommit list"

record Propose =
  prSignatory :: Signatory
  prHeight :: Height
  prRound :: Round
  prBlock :: Block
  prValidRound :: Round
  prLatestCommit :: LatestCommit

datatype Message = MPropose Propose | MPrevote Prevote | MPrecommit Precommit

definition NewPrevote :: "Height \<Rightarrow> Round \<Rightarrow> Hash \<Rightarrow> Prevote" where
  "NewPrevote h r bh = \<lparr>pvSignatory = 0, pvHeight = h, pvRound = r, pvBlockHash = bh\<rparr>"

definition NewPrecommit :: "Height \<Rightarrow> Round \<Rightarrow> Hash \<Rightarrow> Precommit" where
  "NewPrecommit h r bh = \<lparr>pcSignatory = 0, pcHeight = h, pcRound = r, pcBlockHash = bh\<rparr>"

definition NewPropose :: "Height \<Rightarrow> Round \<Rightarrow> Block \<Rightarrow> Round \<Rightarrow> Propose" where
  "NewPropose h r b vr =
     \<lparr>prSignatory = 0, prHeight = h, prRound = r, prBlock = b, prValidRound = vr,
      prLatestCommit = \<lparr>lcBlock = InvalidBlock, lcPrecommits = []\<rparr>\<rparr>"

section \<open>Vote tally\<close>

text \<open>
  Modelled from the spec: the type \<open>Inbox\<close> behind \<open>state.Proposals\<close>, \<open>state.Prevotes\<close>
  and \<open>state.Precommits\<close> is not part of the sources at hand. Section 4.1 of the spec: one
  tally per message kind, at most one message per (height, round, signatory), the first one
  kept; counts per (height, round) and per (height, round, block hash); \<open>Insert\<close> returns
  the count at that (height, round) and the three first-time signals; \<open>f\<close> is fixed at
  construction. A \<open>View\<close> reads the key fields of the message kind a tally holds.
\<close>

record 'm View =
  vHeight :: "'m \<Rightarrow> Height"
  vRound :: "'m \<Rightarrow> Round"
  vSignatory :: "'m \<Rightarrow> Signatory"
  vBlockHash :: "'m \<Rightarrow> Hash"

definition proposeView :: "Propose View" where
  "proposeView = \<lparr>vHeight = prHeight, vRound = prRound, vSignatory = prSignatory,
                   vBlockHash = (\<lambda>m. blkHash (prBlock m))\<rparr>"

definition prevoteView :: "Prevote View" where
  "prevoteView = \<lparr>vHeight = pvHeight, vRound = pvRound, vSignatory = pvSignatory,
                   vBlockHash = pvBlockHash\<rparr>"

definition precommitView :: "Precommit View" where
  "precommitView = \<lparr>vHeight = pcHeight, vRound = pcRound, vSignatory = pcSignatory,
                     vBlockHash = pcBlockHash\<rparr>"

record 'm Inbox =
  inboxF :: int
  inboxMessages :: "'m list"

definition messagesAt :: "'m View \<Rightarrow> 'm Inbox \<Rightarrow> Height \<Rightarrow> Round \<Rightarrow> 'm list" where
  "messagesAt v inbox h r =
     filter (\<lambda>m. vHeight v m = h \<and> vRound v m = r) (inboxMessages inbox)"

definition F :: "'m Inbox \<Rightarrow> int" where
  "F inbox = inboxF inbox"

definition Insert :: "'m View \<Rightarrow> 'm Inbox \<Rightarrow> 'm \<Rightarrow> 'm Inbox \<times> int \<times> bool \<times> bool \<times> bool" where
  "Insert v inbox m =
     (let previous = messagesAt v inbox (vHeight v m) (vRound v m);
          previousN = int (length previous)
      in if list_ex (\<lambda>m'. vSignatory v m' = vSignatory v m) previous
         then (inbox, previousN, False, False, False)
         else let n = previousN + 1
              in (inbox\<lparr>inboxMessages := inboxMessages inbox @ [m]\<rparr>,
                  n,
                  previousN = 0,
                  previousN \<le> F inbox \<and> F inbox < n,
                  previousN \<le> 2 * F inbox \<and> 2 * F inbox < n))"

definition QueryByHeightRoundBlockHash :: "'m View \<Rightarrow> 'm Inbox \<Rightarrow> Height \<Rightarrow> Round \<Rightarrow> Hash \<Rightarrow> int" where
  "QueryByHeightRoundBlockHash v inbox h r bh =
     int (length (filter (\<lambda>m. vBlockHash v m = bh) (messagesAt v inbox h r)))"

definition QueryByHeightRoundSignatory :: "'m View \<Rightarrow> 'm Inbox \<Rightarrow> Height \<Rightarrow> Round \<Rightarrow> Signatory \<Rightarrow> 'm option" where
  "QueryByHeightRoundSignatory v inbox h r sig =
     find (\<lambda>m. vSignatory v m = sig) (messagesAt v inbox h r)"

text \<open>All messages at the single highest round seen at that height (signed order).\<close>

fun highestRound :: "Round list \<Rightarrow> Round option" where
  "highestRound [] = None"
| "highestRound (r # rs) =
     (case highestRound rs of
        None \<Rightarrow> Some r
      | Some r' \<Rightarrow> Some (if r' <s r then r else r'))"

definition QueryMessagesByHeightWithHigestRound :: "'m View \<Rightarrow> 'm Inbox \<Rightarrow> Height \<Rightarrow> 'm list" where
  "QueryMessagesByHeightWithHigestRound v inbox h =
     (let atHeight = filter (\<lambda>m. vHeight v m = h) (inboxMessages inbox)
      in case highestRound (map (vRound v) atHeight) of
           None \<Rightarrow> []
         | Some r \<Rightarrow> filter (\<lambda>m. vRound v m = r) atHeight)"

text \<open>
  \<open>Reset(height)\<close> takes the height just committed and keeps the messages from that height
  on, so that its precommit certificate stays available (spec, section 4.3).
\<close>

definition inboxReset :: "'m View \<Rightarrow> Height \<Rightarrow> 'm Inbox \<Rightarrow> 'm Inbox" where
  "inboxReset v h inbox =
     inbox\<lparr>inboxMessages := filter (\<lambda>m. h \<le> vHeight v m) (inboxMessages inbox)\<rparr>"

section \<open>State\<close>

text \<open>The fields of \<open>State\<close> as the process reads and writes them.\<close>

record State =
  CurrentHeight :: Height
  CurrentRound :: Round
  CurrentStep :: Step
  LockedBlock :: Block
  LockedRound :: Round
  ValidBlock :: Block
  ValidRound :: Round
  Proposals :: "Propose Inbox"
  Prevotes :: "Prevote Inbox"
  Precommits :: "Precommit Inbox"

text \<open>
  Modelled from the spec: \<open>State.Reset\<close> is not part of the sources at hand. By section 4.3
  of the spec it clears the locked and valid block and round, puts the step back to Propose
  and resets the three tallies; it leaves height and round alone.
\<close>

definition Reset :: "Height \<Rightarrow> State \<Rightarrow> State" where
  "Reset h s =
     s\<lparr>CurrentStep := StepPropose,
       LockedBlock := InvalidBlock,
       LockedRound := InvalidRound,
       ValidBlock := InvalidBlock,
       ValidRound := InvalidRound,
       Proposals := inboxReset proposeView h (Proposals s),
       Prevotes := inboxReset prevoteView h (Prevotes s),
       Precommits := inboxReset precommitView h (Precommits s)\<rparr>"

section \<open>The process and its collaborators\<close>

text \<open>
  The collaborators of a \<open>Process\<close> are interfaces: proposer, validator, scheduler and
  timer are taken as functions, fixed for the lifetime of the process. \<open>observer\<close> says
  whether an Observer is set (it may be \<open>nil\<close>); \<open>verify\<close> stands for
  \<open>Verify(&commit) == nil\<close>. What the process sends out (broadcasts, timeouts it schedules,
  notifications of the Observer) is appended to \<open>effects\<close>, in the order of the calls. A
  scheduled timeout is a goroutine that sleeps and then calls the timeout handler with its
  stamp: only the scheduling is an effect here. A panic is the error \<open>Panic\<close>.
\<close>

record Env =
  signatory :: Signatory
  proposer :: "Height \<Rightarrow> Round \<Rightarrow> Block"
  validator :: "Block \<Rightarrow> bool \<Rightarrow> bool"
  scheduler :: "Height \<Rightarrow> Round \<Rightarrow> Signatory"
  timer :: "Step \<Rightarrow> Round \<Rightarrow> int"
  observer :: bool
  verify :: "Precommit \<Rightarrow> bool"

datatype Effect =
    Broadcast Message
  | ScheduleTimeoutPropose Height Round int
  | ScheduleTimeoutPrevote Height Round int
  | ScheduleTimeoutPrecommit Height Round int
  | DidCommitBlock Height

record Process =
  state :: State
  blockchain :: "Height \<rightharpoonup> Block"
  effects :: "Effect list"

datatype Error =
    Panic string
  | EOF
  | ErrUnexpectedEOF
  | Errorf string Error
  | CodecError string

text \<open>
  Modelled from the spec: \<open>Blockchain\<close> is an interface whose implementation is not part of
  the sources at hand. By section 6 of the spec it is a store of blocks by height with a
  total lookup: here a map from heights to blocks, held in \<open>blockchain\<close>.
\<close>

definition InsertBlockAtHeight :: "Height \<Rightarrow> Block \<Rightarrow> Process \<Rightarrow> Process" where
  "InsertBlockAtHeight h b p = p\<lparr>blockchain := (blockchain p)(h \<mapsto> b)\<rparr>"

definition BlockAtHeight :: "Process \<Rightarrow> Height \<Rightarrow> Block option" where
  "BlockAtHeight p h = blockchain p h"

definition BlockExistsAtHeight :: "Process \<Rightarrow> Height \<Rightarrow> bool" where
  "BlockExistsAtHeight p h = (blockchain p h \<noteq> None)"

definition emit :: "Effect \<Rightarrow> Process \<Rightarrow> Process" where
  "emit e p = p\<lparr>effects := effects p @ [e]\<rparr>"

definition setState :: "State \<Rightarrow> Process \<Rightarrow> Process" where
  "setState s p = p\<lparr>state := s\<rparr>"

section \<open>Starting a round\<close>

definition startRound :: "Env \<Rightarrow> Round \<Rightarrow> Process \<Rightarrow> Error + Process" where
  "startRound env round p0 =
     (let p = p0\<lparr>state := (state p0)\<lparr>CurrentRound := round, CurrentStep := StepPropose\<rparr>\<rparr>;
          s = state p
      in if signatory env = scheduler env (CurrentHeight s) (CurrentRound s)
         then
           let proposal = (if blkHash (ValidBlock s) \<noteq> InvalidHash then ValidBlock s
                           else proposer env (CurrentHeight s) (CurrentRound s));
               propose = NewPropose (CurrentHeight s) (CurrentRound s) proposal (ValidRound s)
           in case BlockAtHeight p (CurrentHeight s - 1) of
                None \<Rightarrow> Inl (Panic ''fail to get previous block from storage'')
              | Some previousBlock \<Rightarrow>
                  let messages = QueryMessagesByHeightWithHigestRound precommitView
                                   (Precommits s) (CurrentHeight s - 1);
                      commits = filter (\<lambda>commit. pcBlockHash commit = blkHash previousBlock) messages;
                      propose' = propose\<lparr>prLatestCommit :=
                                   \<lparr>lcBlock = previousBlock, lcPrecommits = commits\<rparr>\<rparr>
                  in Inr (emit (Broadcast (MPropose propose')) p)
         else Inr (emit (ScheduleTimeoutPropose (CurrentHeight s) (CurrentRound s)
                           (timer env StepPropose (CurrentRound s))) p))"

section \<open>Timeouts\<close>

definition timeoutPropose :: "Env \<Rightarrow> Height \<Rightarrow> Round \<Rightarrow> Process \<Rightarrow> Error + Process" where
  "timeoutPropose env height round p =
     (let s = state p
      in if height = CurrentHeight s \<and> round = CurrentRound s \<and> CurrentStep s = StepPropose
         then
           let prevote = NewPrevote (CurrentHeight s) (CurrentRound s) InvalidHash
           in Inr (emit (Broadcast (MPrevote prevote)) (setState (s\<lparr>CurrentStep := StepPrevote\<rparr>) p))
         else Inr p)"

definition timeoutPrevote :: "Env \<Rightarrow> Height \<Rightarrow> Round \<Rightarrow> Process \<Rightarrow> Error + Process" where
  "timeoutPrevote env height round p =
     (let s = state p
      in if height = CurrentHeight s \<and> round = CurrentRound s \<and> CurrentStep s = StepPrevote
         then
           let precommit = NewPrecommit (CurrentHeight s) (CurrentRound s) InvalidHash
           in Inr (emit (Broadcast (MPrecommit precommit)) (setState (s\<lparr>CurrentStep := StepPrecommit\<rparr>) p))
         else Inr p)"

definition timeoutPrecommit :: "Env \<Rightarrow> Height \<Rightarrow> Round \<Rightarrow> Process \<Rightarrow> Error + Process" where
  "timeoutPrecommit env height round p =
     (let s = state p
      in if height = CurrentHeight s \<and> round = CurrentRound s
         then startRound env (CurrentRound s + 1) p
         else Inr p)"

section \<open>The checks run after a message\<close>

definition checkProposeInCurrentHeightAndRoundWithPrevotes :: "Env \<Rightarrow> Process \<Rightarrow> Process" where
  "checkProposeInCurrentHeightAndRoundWithPrevotes env p =
     (let s = state p
      in case QueryByHeightRoundSignatory proposeView (Proposals s) (CurrentHeight s) (CurrentRound s)
                (scheduler env (CurrentHeight s) (CurrentRound s)) of
           None \<Rightarrow> p
         | Some propose \<Rightarrow>
             if InvalidRound <s prValidRound propose
             then
               let n = QueryByHeightRoundBlockHash prevoteView (Prevotes s) (CurrentHeight s)
                         (prValidRound propose) (blkHash (prBlock propose))
               in if n > 2 * F (Prevotes s)
                  then
                    if CurrentStep s = StepPropose \<and> prValidRound propose <s CurrentRound s
                    then
                      let prevote =
                            (if validator env (prBlock propose) True
                                \<and> (LockedRound s \<le>s prValidRound propose
                                    \<or> LockedBlock s = prBlock propose)
                             then NewPrevote (CurrentHeight s) (CurrentRound s) (blkHash (prBlock propose))
                             else NewPrevote (CurrentHeight s) (CurrentRound s) InvalidHash)
                      in emit (Broadcast (MPrevote prevote))
                           (setState (s\<lparr>CurrentStep := StepPrevote\<rparr>) p)
                    else p
                  else p
             else p)"

definition checkProposeInCurrentHeightAndRoundWithPrevotesForTheFirstTime :: "Env \<Rightarrow> Process \<Rightarrow> Process" where
  "checkProposeInCurrentHeightAndRoundWithPrevotesForTheFirstTime env p =
     (let s = state p
      in case QueryByHeightRoundSignatory proposeView (Proposals s) (CurrentHeight s) (CurrentRound s)
                (scheduler env (CurrentHeight s) (CurrentRound s)) of
           None \<Rightarrow> p
         | Some propose \<Rightarrow>
             let n = QueryByHeightRoundBlockHash prevoteView (Prevotes s) (CurrentHeight s)
                       (CurrentRound s) (blkHash (prBlock propose))
             in if n > 2 * F (Prevotes s)
                then
                  if CurrentStep s \<ge> StepPrevote \<and> validator env (prBlock propose) True
                  then
                    let s1 = s\<lparr>ValidBlock := prBlock propose, ValidRound := CurrentRound s\<rparr>
                    in if CurrentStep s1 = StepPrevote
                       then
                         let s2 = s1\<lparr>LockedBlock := prBlock propose,
                                     LockedRound := CurrentRound s1,
                                     CurrentStep := StepPrecommit\<rparr>;
                             precommit = NewPrecommit (CurrentHeight s2) (CurrentRound s2)
                                           (blkHash (prBlock propose))
                         in emit (Broadcast (MPrecommit precommit)) (setState s2 p)
                       else setState s1 p
                  else p
                else p)"

definition checkProposeInCurrentHeightWithPrecommits :: "Env \<Rightarrow> Round \<Rightarrow> Process \<Rightarrow> Error + Process" where
  "checkProposeInCurrentHeightWithPrecommits env round p =
     (let s = state p
      in case QueryByHeightRoundSignatory proposeView (Proposals s) (CurrentHeight s) round
                (scheduler env (CurrentHeight s) round) of
           None \<Rightarrow> Inr p
         | Some propose \<Rightarrow>
             let n = QueryByHeightRoundBlockHash precommitView (Precommits s) (CurrentHeight s)
                       round (blkHash (prBlock propose))
             in if n > 2 * F (Precommits s)
                then
                  if \<not> BlockExistsAtHeight p (CurrentHeight s)
                  then
                    if validator env (prBlock propose) True
                    then
                      let p1 = InsertBlockAtHeight (CurrentHeight s) (prBlock propose) p;
                          s1 = (state p1)\<lparr>CurrentHeight := CurrentHeight (state p1) + 1\<rparr>;
                          s2 = Reset (CurrentHeight s1 - 1) s1;
                          p2 = setState s2 p1;
                          p3 = (if observer env
                                then emit (DidCommitBlock (CurrentHeight s2 - 1)) p2
                                else p2)
                      in startRound env 0 p3
                    else Inr p
                  else Inr p
                else Inr p)"

section \<open>Catching up from the latest commit\<close>

text \<open>
  The loop over the precommits of the bundle returns from \<open>syncLatestCommit\<close> at the first
  precommit that fails one of its five checks; it has no other effect.
\<close>

fun commitsValid :: "Env \<Rightarrow> Signatory set \<Rightarrow> Block \<Rightarrow> Precommit list \<Rightarrow> bool" where
  "commitsValid env signatories blk [] = True"
| "commitsValid env signatories blk (commit # commits) =
     (if \<not> verify env commit then False
      else if pcSignatory commit \<notin> signatories then False
      else if pcBlockHash commit \<noteq> blkHash blk then False
      else if pcHeight commit \<noteq> blkHeight blk then False
      else if pcRound commit \<noteq> blkRound blk then False
      else commitsValid env signatories blk commits)"

definition syncLatestCommit :: "Env \<Rightarrow> LatestCommit \<Rightarrow> Process \<Rightarrow> Error + Process" where
  "syncLatestCommit env latestCommit p =
     (let s = state p; blk = lcBlock latestCommit
      in if blkHeight blk > CurrentHeight s then Inr p
         else if \<not> validator env blk False then Inr p
         else case BlockAtHeight p 0 of
                None \<Rightarrow> Inl (Panic ''no genesis block'')
              | Some baseBlock \<Rightarrow>
                  if \<not> commitsValid env (set (blkSignatories baseBlock)) blk (lcPrecommits latestCommit)
                  then Inr p
                  else if int (length (remdups (map pcSignatory (lcPrecommits latestCommit))))
                            < 2 * inboxF (Proposals s) + 1
                  then Inr p
                  else
                    let p1 = (if \<not> BlockExistsAtHeight p (blkHeight blk)
                              then InsertBlockAtHeight (blkHeight blk) blk p else p);
                        s1 = (state p1)\<lparr>CurrentHeight := blkHeight blk + 1, CurrentRound := 0\<rparr>;
                        s2 = Reset (blkHeight blk) s1;
                        p2 = setState s2 p1
                    in startRound env (CurrentRound s2) p2)"

section \<open>Message handlers\<close>

text \<open>
  The rule of \<open>handlePropose\<close> for a proposal of the current height and round without a
  valid round (``upon Propose{currentHeight, currentRound, block, -1}'').
\<close>

definition proposeRule :: "Env \<Rightarrow> Propose \<Rightarrow> Process \<Rightarrow> Process" where
  "proposeRule env propose p =
     (let s = state p
      in if prHeight propose = CurrentHeight s \<and> prRound propose = CurrentRound s
            \<and> prValidRound propose = InvalidRound
         then
           if prSignatory propose = scheduler env (CurrentHeight s) (CurrentRound s)
           then
             if CurrentStep s = StepPropose
             then
               let prevote =
                     (if validator env (prBlock propose) True
                         \<and> (LockedRound s = InvalidRound \<or> LockedBlock s = prBlock propose)
                      then NewPrevote (CurrentHeight s) (CurrentRound s) (blkHash (prBlock propose))
                      else NewPrevote (CurrentHeight s) (CurrentRound s) InvalidHash)
               in emit (Broadcast (MPrevote prevote)) (setState (s\<lparr>CurrentStep := StepPrevote\<rparr>) p)
             else p
           else p
         else p)"

definition handlePropose :: "Env \<Rightarrow> Propose \<Rightarrow> Process \<Rightarrow> Error + Process" where
  "handlePropose env propose p0 =
     (case syncLatestCommit env (prLatestCommit propose) p0 of
        Inl e \<Rightarrow> Inl e
      | Inr p1 \<Rightarrow>
          (case Insert proposeView (Proposals (state p1)) propose of
             (inbox, n, firstTime, _, _) \<Rightarrow>
               let p2 = setState ((state p1)\<lparr>Proposals := inbox\<rparr>) p1;
                   p3 = proposeRule env propose p2
               in (case (if n > F (Prevotes (state p3))
                            \<and> prHeight propose = CurrentHeight (state p3)
                            \<and> CurrentRound (state p3) <s prRound propose
                         then startRound env (prRound propose) p3 else Inr p3) of
                     Inl e \<Rightarrow> Inl e
                   | Inr p4 \<Rightarrow>
                       let p5 = checkProposeInCurrentHeightAndRoundWithPrevotes env p4;
                           p6 = (if firstTime
                                 then checkProposeInCurrentHeightAndRoundWithPrevotesForTheFirstTime env p5
                                 else p5)
                       in checkProposeInCurrentHeightWithPrecommits env (prRound propose) p6)))"

text \<open>
  The two rules of \<open>handlePrevote\<close> that come before the jump to a later round: the
  prevote timeout on the first 2f+1 prevotes of the current round, and the nil precommit
  on 2f+1 nil prevotes.
\<close>

definition prevoteRules :: "Env \<Rightarrow> Prevote \<Rightarrow> bool \<Rightarrow> Process \<Rightarrow> Process" where
  "prevoteRules env prevote firstTimeExceeding2F p =
     (let s = state p;
          p1 = (if firstTimeExceeding2F \<and> pvHeight prevote = CurrentHeight s
                   \<and> pvRound prevote = CurrentRound s \<and> CurrentStep s = StepPrevote
                then emit (ScheduleTimeoutPrevote (CurrentHeight s) (CurrentRound s)
                             (timer env StepPrevote (CurrentRound s))) p
                else p);
          s1 = state p1;
          n = QueryByHeightRoundBlockHash prevoteView (Prevotes s1) (CurrentHeight s1)
                (CurrentRound s1) InvalidHash
      in if n > 2 * F (Prevotes s1) \<and> CurrentStep s1 = StepPrevote
         then
           let precommit = NewPrecommit (CurrentHeight s1) (CurrentRound s1) InvalidHash
           in emit (Broadcast (MPrecommit precommit)) (setState (s1\<lparr>CurrentStep := StepPrecommit\<rparr>) p1)
         else p1)"

definition handlePrevote :: "Env \<Rightarrow> Prevote \<Rightarrow> Process \<Rightarrow> Error + Process" where
  "handlePrevote env prevote p0 =
     (case Insert prevoteView (Prevotes (state p0)) prevote of
        (inbox, n, _, _, firstTimeExceeding2F) \<Rightarrow>
          let p1 = setState ((state p0)\<lparr>Prevotes := inbox\<rparr>) p0;
              p2 = prevoteRules env prevote firstTimeExceeding2F p1
          in (case (if n > F (Prevotes (state p2))
                       \<and> pvHeight prevote = CurrentHeight (state p2)
                       \<and> CurrentRound (state p2) <s pvRound prevote
                    then startRound env (pvRound prevote) p2 else Inr p2) of
                Inl e \<Rightarrow> Inl e
              | Inr p3 \<Rightarrow>
                  let p4 = checkProposeInCurrentHeightAndRoundWithPrevotes env p3
                  in Inr (if firstTimeExceeding2F
                          then checkProposeInCurrentHeightAndRoundWithPrevotesForTheFirstTime env p4
                          else p4)))"

definition handlePrecommit :: "Env \<Rightarrow> Precommit \<Rightarrow> Process \<Rightarrow> Error + Process" where
  "handlePrecommit env precommit p0 =
     (case Insert precommitView (Precommits (state p0)) precommit of
        (inbox, n, _, _, firstTimeExceeding2F) \<Rightarrow>
          let p1 = setState ((state p0)\<lparr>Precommits := inbox\<rparr>) p0;
              s1 = state p1;
              p2 = (if firstTimeExceeding2F \<and> pcHeight precommit = CurrentHeight s1
                       \<and> pcRound precommit = CurrentRound s1
                    then emit (ScheduleTimeoutPrecommit (CurrentHeight s1) (CurrentRound s1)
                                 (timer env StepPrecommit (CurrentRound s1))) p1
                    else p1)
          in (case (if n > F (Precommits (state p2))
                       \<and> pcHeight precommit = CurrentHeight (state p2)
                       \<and> CurrentRound (state p2) <s pcRound precommit
                    then startRound env (pcRound precommit) p2 else Inr p2) of
                Inl e \<Rightarrow> Inl e
              | Inr p3 \<Rightarrow> checkProposeInCurrentHeightWithPrecommits env (pcRound precommit) p3))"

fun HandleMessage :: "Env \<Rightarrow> Message \<Rightarrow> Process \<Rightarrow> Error + Process" where
  "HandleMessage env (MPropose m) p = handlePropose env m p"
| "HandleMessage env (MPrevote m) p = handlePrevote env m p"
| "HandleMessage env (MPrecommit m) p = handlePrecommit env m p"

section \<open>Binary form of the state\<close>

text \<open>
  \<open>binary.Write\<close> and \<open>binary.Read\<close> with \<open>binary.LittleEndian\<close> on a \<open>bytes.Buffer\<close>.
  Writing to the buffer does not fail, so the error branches after each \<open>binary.Write\<close> are
  left out. \<open>binary.Read\<close> of a fixed-size value fails with \<open>EOF\<close> on an empty buffer and
  with \<open>ErrUnexpectedEOF\<close> on a shorter one, and leaves its target as it was.
\<close>

definition writeU64 :: "64 word \<Rightarrow> byte list" where
  "writeU64 w =
     [ucast w, ucast (drop_bit 8 w), ucast (drop_bit 16 w), ucast (drop_bit 24 w),
      ucast (drop_bit 32 w), ucast (drop_bit 40 w), ucast (drop_bit 48 w), ucast (drop_bit 56 w)]"

fun littleEndian :: "byte list \<Rightarrow> 64 word" where
  "littleEndian [] = 0"
| "littleEndian (b # bs) = ucast b OR push_bit 8 (littleEndian bs)"

definition readU64 :: "byte list \<Rightarrow> Error + (64 word \<times> byte list)" where
  "readU64 buf =
     (if buf = [] then Inl EOF
      else if length buf < 8 then Inl ErrUnexpectedEOF
      else Inr (littleEndian (take 8 buf), drop 8 buf))"

definition readU8 :: "byte list \<Rightarrow> Error + (byte \<times> byte list)" where
  "readU8 buf = (case buf of [] \<Rightarrow> Inl EOF | b # rest \<Rightarrow> Inr (b, rest))"

text \<open>
  \<open>make([]byte, numBytes)\<close> panics with ``len out of range'' when \<open>numBytes\<close> bytes are
  more than the runtime can ever allocate: \<open>maxAlloc\<close>, which is \<open>2 ^ 48\<close> bytes on 64-bit
  Linux (and so also when \<open>numBytes\<close> does not fit an \<open>int\<close>). An allocation within
  that limit is taken to succeed, with the slice zeroed. \<open>buf.Read(bs)\<close> copies what the
  buffer has, up to \<open>len(bs)\<close> bytes, and fails with \<open>EOF\<close> only on an empty buffer when
  \<open>len(bs) > 0\<close>.
\<close>

definition maxAlloc :: nat where
  "maxAlloc = 2 ^ 48"

definition makeBytes :: "64 word \<Rightarrow> Error + nat" where
  "makeBytes numBytes =
     (if unat numBytes > maxAlloc then Inl (Panic ''makeslice: len out of range'')
      else Inr (unat numBytes))"

definition bufRead :: "nat \<Rightarrow> byte list \<Rightarrow> Error + (byte list \<times> byte list)" where
  "bufRead n buf =
     (if buf = [] then (if n = 0 then Inr ([], []) else Inl EOF)
      else Inr (take n buf @ replicate (n - length buf) 0, drop n buf))"

text \<open>
  The binary forms of blocks and tallies belong to their own packages: they are taken as
  parameters. \<open>unmarshalBinary\<close> has a pointer receiver: it gets the value to overwrite
  and returns what it left there together with its error, if any.
\<close>

record 'a BinaryCodec =
  marshalBinary :: "'a \<Rightarrow> Error + byte list"
  unmarshalBinary :: "'a \<Rightarrow> byte list \<Rightarrow> Error option \<times> 'a"

record Codecs =
  blockCodec :: "Block BinaryCodec"
  proposalsCodec :: "Propose Inbox BinaryCodec"
  prevotesCodec :: "Prevote Inbox BinaryCodec"
  precommitsCodec :: "Precommit Inbox BinaryCodec"

text \<open>
  \<open>MarshalBinary\<close> appends one part after the other to the buffer and returns the buffer
  and the error of the first part that fails.
\<close>

definition writeFixed :: "byte list \<Rightarrow> byte list \<Rightarrow> byte list \<times> Error option" where
  "writeFixed bytes buf = (buf @ bytes, None)"

definition writeMarshalled :: "string \<Rightarrow> Error + byte list \<Rightarrow> byte list \<Rightarrow> byte list \<times> Error option" where
  "writeMarshalled what marshalled buf =
     (case marshalled of
        Inl e \<Rightarrow> (buf, Some (Errorf (''cannot marshal p.state.'' @ what) e))
      | Inr data \<Rightarrow> (buf @ writeU64 (of_nat (length data)) @ data, None))"

fun runWrites :: "(byte list \<Rightarrow> byte list \<times> Error option) list \<Rightarrow> byte list \<Rightarrow> byte list \<times> Error option" where
  "runWrites [] buf = (buf, None)"
| "runWrites (w # ws) buf =
     (case w buf of
        (buf', Some e) \<Rightarrow> (buf', Some e)
      | (buf', None) \<Rightarrow> runWrites ws buf')"

definition MarshalBinary :: "Codecs \<Rightarrow> State \<Rightarrow> byte list \<times> Error option" where
  "MarshalBinary c s =
     runWrites
       [writeFixed (writeU64 (CurrentHeight s)),
        writeFixed (writeU64 (CurrentRound s)),
        writeFixed [CurrentStep s],
        writeMarshalled ''LockedBlock'' (marshalBinary (blockCodec c) (LockedBlock s)),
        writeFixed (writeU64 (LockedRound s)),
        writeMarshalled ''ValidBlock'' (marshalBinary (blockCodec c) (ValidBlock s)),
        writeFixed (writeU64 (ValidRound s)),
        writeMarshalled ''Proposals'' (marshalBinary (proposalsCodec c) (Proposals s)),
        writeMarshalled ''Prevotes'' (marshalBinary (prevotesCodec c) (Prevotes s)),
        writeMarshalled ''Precommits'' (marshalBinary (precommitsCodec c) (Precommits s))]
       []"

text \<open>
  \<open>UnmarshalBinary\<close> reads the parts in the same order, each straight into its field of
  \<open>p.state\<close>, and returns at the first error with the fields read so far overwritten.
\<close>

type_synonym readStep = "State \<Rightarrow> byte list \<Rightarrow> Error option \<times> State \<times> byte list"

definition readFixed64 :: "string \<Rightarrow> (64 word \<Rightarrow> State \<Rightarrow> State) \<Rightarrow> readStep" where
  "readFixed64 what store s buf =
     (case readU64 buf of
        Inl e \<Rightarrow> (Some (Errorf (''cannot read p.state.'' @ what) e), s, buf)
      | Inr (w, rest) \<Rightarrow> (None, store w s, rest))"

definition readFixed8 :: "string \<Rightarrow> (byte \<Rightarrow> State \<Rightarrow> State) \<Rightarrow> readStep" where
  "readFixed8 what store s buf =
     (case readU8 buf of
        Inl e \<Rightarrow> (Some (Errorf (''cannot read p.state.'' @ what) e), s, buf)
      | Inr (b, rest) \<Rightarrow> (None, store b s, rest))"

definition readMarshalled :: "string \<Rightarrow> 'a BinaryCodec \<Rightarrow> (State \<Rightarrow> 'a) \<Rightarrow> ('a \<Rightarrow> State \<Rightarrow> State) \<Rightarrow> readStep" where
  "readMarshalled what codec field store s buf =
     (case readU64 buf of
        Inl e \<Rightarrow> (Some (Errorf (''cannot read p.state.'' @ what @ '' len'') e), s, buf)
      | Inr (numBytes, buf1) \<Rightarrow>
          (case makeBytes numBytes of
             Inl e \<Rightarrow> (Some e, s, buf1)
           | Inr n \<Rightarrow>
               (case bufRead n buf1 of
                  Inl e \<Rightarrow> (Some (Errorf (''cannot read p.state.'' @ what @ '' data'') e), s, buf1)
                | Inr (bytes, buf2) \<Rightarrow>
                    (case unmarshalBinary codec (field s) bytes of
                       (Some e, x) \<Rightarrow>
                         (Some (Errorf (''cannot unmarshal p.state.'' @ what) e), store x s, buf2)
                     | (None, x) \<Rightarrow> (None, store x s, buf2)))))"

fun runReads :: "readStep list \<Rightarrow> readStep" where
  "runReads [] s buf = (None, s, buf)"
| "runReads (r # rs) s buf =
     (case r s buf of
        (Some e, s', buf') \<Rightarrow> (Some e, s', buf')
      | (None, s', buf') \<Rightarrow> runReads rs s' buf')"

definition UnmarshalBinary :: "Codecs \<Rightarrow> byte list \<Rightarrow> State \<Rightarrow> Error option \<times> State" where
  "UnmarshalBinary c data s =
     (case runReads
             [readFixed64 ''CurrentHeight'' (\<lambda>w st. st\<lparr>CurrentHeight := w\<rparr>),
              readFixed64 ''CurrentRound'' (\<lambda>w st. st\<lparr>CurrentRound := w\<rparr>),
              readFixed8 ''CurrentStep'' (\<lambda>b st. st\<lparr>CurrentStep := b\<rparr>),
              readMarshalled ''LockedBlock'' (blockCodec c) LockedBlock (\<lambda>x st. st\<lparr>LockedBlock := x\<rparr>),
              readFixed64 ''LockedRound'' (\<lambda>w st. st\<lparr>LockedRound := w\<rparr>),
              readMarshalled ''ValidBlock'' (blockCodec c) ValidBlock (\<lambda>x st. st\<lparr>ValidBlock := x\<rparr>),
              readFixed64 ''ValidRound'' (\<lambda>w st. st\<lparr>ValidRound := w\<rparr>),
              readMarshalled ''Proposals'' (proposalsCodec c) Proposals (\<lambda>x st. st\<lparr>Proposals := x\<rparr>),
              readMarshalled ''Prevotes'' (prevotesCodec c) Prevotes (\<lambda>x st. st\<lparr>Prevotes := x\<rparr>),
              readMarshalled ''Precommits'' (precommitsCodec c) Precommits (\<lambda>x st. st\<lparr>Precommits := x\<rparr>)]
             s data of
        (err, s', rest) \<Rightarrow> (err, s'))"

text \<open>
  A binary form round-trips when decoding what \<open>marshalBinary\<close> returned gives the value
  back, whatever the receiver held. A byte slice that exists is not longer than \<open>maxAlloc\<close>.
\<close>

definition roundTrips :: "'a BinaryCodec \<Rightarrow> bool" where
  "roundTrips codec =
     (\<forall>x data receiver. marshalBinary codec x = Inr data \<longrightarrow>
        length data \<le> maxAlloc \<and> unmarshalBinary codec receiver data = (None, x))"

section \<open>The replica in front of the process\<close>

text \<open>
  One turn of the loop of \<open>Run\<close> on an inbound Propose, Prevote or Precommit. The replica
  reads the \<open>Height\<close> and \<open>From\<close> of the message. The message queue (package \<open>mq\<close>) is
  not part of the sources at hand: its three insertions are parameters, and so is \<open>flush\<close>,
  which hands the queue to the process. A filtered message returns from the turn before
  \<open>flush\<close>. \<open>procsAllowed\<close> is a Go map to \<open>bool\<close>: a missing key reads as \<open>false\<close>.
\<close>

record InMessage =
  inHeight :: Height
  inFrom :: Signatory

datatype Inbound = OnPropose InMessage | OnPrevote InMessage | OnPrecommit InMessage

record 'q MessageQueue =
  InsertPropose :: "InMessage \<Rightarrow> 'q \<Rightarrow> 'q"
  InsertPrevote :: "InMessage \<Rightarrow> 'q \<Rightarrow> 'q"
  InsertPrecommit :: "InMessage \<Rightarrow> 'q \<Rightarrow> 'q"

record 'q Replica =
  procCurrentHeight :: Height
  procsAllowed :: "Signatory \<rightharpoonup> bool"
  mq :: 'q

text \<open>The loop of \<open>New\<close> that fills \<open>procsAllowed\<close> from the signatories.\<close>

fun allowSignatories :: "Signatory list \<Rightarrow> (Signatory \<rightharpoonup> bool) \<Rightarrow> (Signatory \<rightharpoonup> bool)" where
  "allowSignatories [] m = m"
| "allowSignatories (sig # sigs) m = allowSignatories sigs (m(sig \<mapsto> True))"

definition newProcsAllowed :: "Signatory list \<Rightarrow> (Signatory \<rightharpoonup> bool)" where
  "newProcsAllowed signatories = allowSignatories signatories Map.empty"

definition filterHeight :: "'q Replica \<Rightarrow> Height \<Rightarrow> bool" where
  "filterHeight replica height = (height \<ge> procCurrentHeight replica)"

definition filterFrom :: "'q Replica \<Rightarrow> Signatory \<Rightarrow> bool" where
  "filterFrom replica from = (case procsAllowed replica from of None \<Rightarrow> False | Some b \<Rightarrow> b)"

fun runInbound :: "'q MessageQueue \<Rightarrow> ('q Replica \<Rightarrow> 'q Replica) \<Rightarrow> 'q Replica \<Rightarrow> Inbound \<Rightarrow> 'q Replica" where
  "runInbound q flush replica (OnPropose propose) =
     (if \<not> filterHeight replica (inHeight propose) then replica
      else if \<not> filterFrom replica (inFrom propose) then replica
      else flush (replica\<lparr>mq := InsertPropose q propose (mq replica)\<rparr>))"
| "runInbound q flush replica (OnPrevote prevote) =
     (if \<not> filterHeight replica (inHeight prevote) then replica
      else if \<not> filterFrom replica (inFrom prevote) then replica
      else flush (replica\<lparr>mq := InsertPrevote q prevote (mq replica)\<rparr>))"
| "runInbound q flush replica (OnPrecommit precommit) =
     (if \<not> filterHeight replica (inHeight precommit) then replica
      else if \<not> filterFrom replica (inFrom precommit) then replica
      else flush (replica\<lparr>mq := InsertPrecommit q precommit (mq replica)\<rparr>))"

text \<open>The message of an inbound event, and the insertion \<open>Run\<close> picks for its kind.\<close>

fun inboundMessage :: "Inbound \<Rightarrow> InMessage" where
  "inboundMessage (OnPropose m) = m"
| "inboundMessage (OnPrevote m) = m"
| "inboundMessage (OnPrecommit m) = m"

fun insertInbound :: "'q MessageQueue \<Rightarrow> Inbound \<Rightarrow> 'q \<Rightarrow> 'q" where
  "insertInbound q (OnPropose m) = InsertPropose q m"
| "insertInbound q (OnPrevote m) = InsertPrevote q m"
| "insertInbound q (OnPrecommit m) = InsertPrecommit q m"

section \<open>Example data\<close>

text \<open>
  Four signatories 1 to 4, so \<open>f = 1\<close>; this process is signatory 1 and the scheduler always
  names signatory 2. The process is at height 5, round 0, and stores the genesis block.
\<close>

definition exBlock :: "Hash \<Rightarrow> Height \<Rightarrow> Round \<Rightarrow> Block" where
  "exBlock bh h r = \<lparr>blkHash = bh, blkHeight = h, blkRound = r, blkSignatories = [1, 2, 3, 4]\<rparr>"

definition exEnv :: Env where
  "exEnv = \<lparr>signatory = 1, proposer = (\<lambda>h r. exBlock 99 h r),
            validator = (\<lambda>b checkHistory. True), scheduler = (\<lambda>h r. 2),
            timer = (\<lambda>step r. 10), observer = True, verify = (\<lambda>commit. True)\<rparr>"

definition exState :: State where
  "exState = \<lparr>CurrentHeight = 5, CurrentRound = 0, CurrentStep = StepPropose,
              LockedBlock = InvalidBlock, LockedRound = InvalidRound,
              ValidBlock = InvalidBlock, ValidRound = InvalidRound,
              Proposals = \<lparr>inboxF = 1, inboxMessages = []\<rparr>,
              Prevotes = \<lparr>inboxF = 1, inboxMessages = []\<rparr>,
              Precommits = \<lparr>inboxF = 1, inboxMessages = []\<rparr>\<rparr>"

definition exProcess :: Process where
  "exProcess = \<lparr>state = exState, blockchain = [0 \<mapsto> exBlock 7 0 0], effects = []\<rparr>"

definition exPropose :: "Round \<Rightarrow> Round \<Rightarrow> Propose" where
  "exPropose r vr =
     \<lparr>prSignatory = 2, prHeight = 5, prRound = r, prBlock = exBlock 42 5 r, prValidRound = vr,
      prLatestCommit = \<lparr>lcBlock = InvalidBlock, lcPrecommits = []\<rparr>\<rparr>"

definition exPrevote :: "Signatory \<Rightarrow> Round \<Rightarrow> Hash \<Rightarrow> Prevote" where
  "exPrevote sig r bh = \<lparr>pvSignatory = sig, pvHeight = 5, pvRound = r, pvBlockHash = bh\<rparr>"

definition exPrecommit :: "Signatory \<Rightarrow> Height \<Rightarrow> Round \<Rightarrow> Hash \<Rightarrow> Precommit" where
  "exPrecommit sig h r bh = \<lparr>pcSignatory = sig, pcHeight = h, pcRound = r, pcBlockHash = bh\<rparr>"

text \<open>
  Catch-up bundles: a block of height 3, below the current height 5, and a block of height 9,
  above it, each with precommits of three of the four signatories.
\<close>

definition exOldCommit :: LatestCommit where
  "exOldCommit = \<lparr>lcBlock = exBlock 42 3 0,
                  lcPrecommits = [exPrecommit 1 3 0 42, exPrecommit 2 3 0 42, exPrecommit 3 3 0 42]\<rparr>"

definition exFutureCommit :: LatestCommit where
  "exFutureCommit = \<lparr>lcBlock = exBlock 42 9 0,
                     lcPrecommits = [exPrecommit 1 9 0 42, exPrecommit 2 9 0 42, exPrecommit 3 9 0 42]\<rparr>"

text \<open>
  The proposal of signatory 2 for (5, 0) with three precommits for its block, and the same
  proposal with four precommits split over two hashes and nil.
\<close>

definition exCommitProcess :: Process where
  "exCommitProcess =
     \<lparr>state = exState\<lparr>Proposals := \<lparr>inboxF = 1, inboxMessages = [exPropose 0 InvalidRound]\<rparr>,
                       Precommits := \<lparr>inboxF = 1, inboxMessages =
                         [exPrecommit 1 5 0 42, exPrecommit 2 5 0 42, exPrecommit 3 5 0 42]\<rparr>\<rparr>,
      blockchain = [0 \<mapsto> exBlock 7 0 0], effects = []\<rparr>"

definition exSplitProcess :: Process where
  "exSplitProcess =
     \<lparr>state = exState\<lparr>Proposals := \<lparr>inboxF = 1, inboxMessages = [exPropose 0 InvalidRound]\<rparr>,
                       Precommits := \<lparr>inboxF = 1, inboxMessages =
                         [exPrecommit 1 5 0 42, exPrecommit 2 5 0 42, exPrecommit 3 5 0 43,
                          exPrecommit 4 5 0 InvalidHash]\<rparr>\<rparr>,
      blockchain = [0 \<mapsto> exBlock 7 0 0], effects = []\<rparr>"








text \<open>
  A process in round 0 that already holds the proposal of signatory 2 for round 3, made with
  valid round 1, three prevotes for its block in round 1 and one prevote of round 3; the
  same after the prevote of signatory 4 for round 3 is inserted. Then the two without the
  proposal and the prevotes of round 1.
\<close>

definition exSkipProcess :: Process where
  "exSkipProcess =
     \<lparr>state = exState\<lparr>Proposals := \<lparr>inboxF = 1, inboxMessages = [exPropose 3 1]\<rparr>,
                       Prevotes := \<lparr>inboxF = 1, inboxMessages =
                         [exPrevote 1 1 42, exPrevote 2 1 42, exPrevote 3 1 42, exPrevote 3 3 42]\<rparr>\<rparr>,
      blockchain = [0 \<mapsto> exBlock 7 0 0], effects = []\<rparr>"

definition exSkipInserted :: Process where
  "exSkipInserted =
     \<lparr>state = exState\<lparr>Proposals := \<lparr>inboxF = 1, inboxMessages = [exPropose 3 1]\<rparr>,
                       Prevotes := \<lparr>inboxF = 1, inboxMessages =
                         [exPrevote 1 1 42, exPrevote 2 1 42, exPrevote 3 1 42, exPrevote 3 3 42,
                          exPrevote 4 3 42]\<rparr>\<rparr>,
      blockchain = [0 \<mapsto> exBlock 7 0 0], effects = []\<rparr>"

definition exSkipNoProposal :: Process where
  "exSkipNoProposal =
     \<lparr>state = exState\<lparr>Prevotes := \<lparr>inboxF = 1, inboxMessages = [exPrevote 3 3 42]\<rparr>\<rparr>,
      blockchain = [0 \<mapsto> exBlock 7 0 0], effects = []\<rparr>"

definition exSkipNoProposalInserted :: Process where
  "exSkipNoProposalInserted =
     \<lparr>state = exState\<lparr>Prevotes := \<lparr>inboxF = 1, inboxMessages = [exPrevote 3 3 42, exPrevote 4 3 42]\<rparr>\<rparr>,
      blockchain = [0 \<mapsto> exBlock 7 0 0], effects = []\<rparr>"

text \<open>
  Binary forms for the examples: a block without hash and signatories as its height and
  round, an empty tally as its \<open>f\<close>; anything else is refused.
\<close>

definition exBlockCodec :: "Block BinaryCodec" where
  "exBlockCodec =
     \<lparr>marshalBinary = (\<lambda>b.
        if blkHash b = InvalidHash \<and> blkSignatories b = []
        then Inr (writeU64 (blkHeight b) @ writeU64 (blkRound b))
        else Inl (CodecError ''unsupported block'')),
      unmarshalBinary = (\<lambda>receiver data.
        case readU64 data of
          Inl e \<Rightarrow> (Some e, receiver)
        | Inr (h, rest) \<Rightarrow>
            (case readU64 rest of
               Inl e \<Rightarrow> (Some e, receiver)
             | Inr (r, rest') \<Rightarrow>
                 (None, \<lparr>blkHash = InvalidHash, blkHeight = h, blkRound = r,
                         blkSignatories = []\<rparr>)))\<rparr>"

definition exInboxCodec :: "'m Inbox BinaryCodec" where
  "exInboxCodec =
     \<lparr>marshalBinary = (\<lambda>inbox.
        if inboxMessages inbox = [] \<and> 0 \<le> inboxF inbox \<and> inboxF inbox < 2 ^ 63
        then Inr (writeU64 (word_of_int (inboxF inbox)))
        else Inl (CodecError ''unsupported tally'')),
      unmarshalBinary = (\<lambda>receiver data.
        case readU64 data of
          Inl e \<Rightarrow> (Some e, receiver)
        | Inr (w, rest) \<Rightarrow> (None, \<lparr>inboxF = uint w, inboxMessages = []\<rparr>))\<rparr>"

definition exCodecs :: Codecs where
  "exCodecs = \<lparr>blockCodec = exBlockCodec, proposalsCodec = exInboxCodec,
               prevotesCodec = exInboxCodec, precommitsCodec = exInboxCodec\<rparr>"

text \<open>
  A replica at height 5 that knows the four signatories, with a list as its queue and
  nothing to flush.
\<close>

definition exQueue :: "Inbound list MessageQueue" where
  "exQueue = \<lparr>InsertPropose = (\<lambda>m q. q @ [OnPropose m]),
              InsertPrevote = (\<lambda>m q. q @ [OnPrevote m]),
              InsertPrecommit = (\<lambda>m q. q @ [OnPrecommit m])\<rparr>"

definition exReplica :: "Inbound list Replica" where
  "exReplica = \<lparr>procCurrentHeight = 5, procsAllowed = newProcsAllowed [1, 2, 3, 4], mq = []\<rparr>"

section \<open>Evaluation and auxiliary facts\<close>

lemmas const_defs = StepNil_def StepPropose_def StepPrevote_def StepPrecommit_def
  InvalidHash_def InvalidRound_def InvalidBlock_def

lemmas ex_defs = exEnv_def exProcess_def exState_def exBlock_def

lemmas tally_defs = QueryByHeightRoundSignatory_def QueryByHeightRoundBlockHash_def messagesAt_def
  F_def proposeView_def prevoteView_def precommitView_def exPropose_def exPrevote_def exPrecommit_def

lemma startRound_Inr_state:
  "startRound env round p = Inr p' \<Longrightarrow>
     state p' = (state p)\<lparr>CurrentRound := round, CurrentStep := StepPropose\<rparr>
     \<and> blockchain p' = blockchain p"
  by (auto simp: startRound_def Let_def emit_def BlockAtHeight_def split: if_splits option.splits)

lemma startRound_previous_block:
  "blockchain p (CurrentHeight (state p) - 1) = Some b \<Longrightarrow>
   \<exists>e. startRound env round p =
          Inr (p\<lparr>state := (state p)\<lparr>CurrentRound := round, CurrentStep := StepPropose\<rparr>,
                 effects := effects p @ [e]\<rparr>)
       \<and> (e = ScheduleTimeoutPropose (CurrentHeight (state p)) round (timer env StepPropose round)
          \<or> (\<exists>m. e = Broadcast (MPropose m)))"
  by (auto simp: startRound_def Let_def emit_def BlockAtHeight_def)

lemma Insert_inboxF:
  "Insert v inbox m = (inbox', rest) \<Longrightarrow> inboxF inbox' = inboxF inbox"
  by (auto simp: Insert_def Let_def split: if_splits)

lemma prevoteRules_keeps:
  "CurrentHeight (state (prevoteRules env m ft p)) = CurrentHeight (state p)
   \<and> CurrentRound (state (prevoteRules env m ft p)) = CurrentRound (state p)
   \<and> Proposals (state (prevoteRules env m ft p)) = Proposals (state p)
   \<and> Prevotes (state (prevoteRules env m ft p)) = Prevotes (state p)"
  by (simp add: prevoteRules_def Let_def setState_def emit_def)

lemma checks_without_proposal:
  assumes "QueryByHeightRoundSignatory proposeView (Proposals (state p)) (CurrentHeight (state p))
             (CurrentRound (state p)) (scheduler env (CurrentHeight (state p)) (CurrentRound (state p))) = None"
  shows "checkProposeInCurrentHeightAndRoundWithPrevotes env p = p"
    and "checkProposeInCurrentHeightAndRoundWithPrevotesForTheFirstTime env p = p"
  using assms
  by (simp_all add: checkProposeInCurrentHeightAndRoundWithPrevotes_def
      checkProposeInCurrentHeightAndRoundWithPrevotesForTheFirstTime_def Let_def)





section \<open>Catch-up\<close>

lemma exOldCommit_sync:
  "syncLatestCommit exEnv exOldCommit exProcess =
     Inr \<lparr>state = exState\<lparr>CurrentHeight := 4\<rparr>,
          blockchain = [0 \<mapsto> exBlock 7 0 0, 3 \<mapsto> exBlock 42 3 0],
          effects = [ScheduleTimeoutPropose 4 0 10]\<rparr>"
  by (simp add: syncLatestCommit_def exOldCommit_def exPrecommit_def ex_defs Let_def
      BlockAtHeight_def BlockExistsAtHeight_def InsertBlockAtHeight_def setState_def
      Reset_def inboxReset_def startRound_def emit_def const_defs)

text \<open>
  Claim C1 says that a bundle whose block is not above the current height is ignored, and
  that the routine acts only on bundles from the future. \<open>syncLatestCommit\<close> returns at
  once when the height of the block is above the current height, and goes on otherwise: at
  height 5, the bundle for height 3 is validated, its block is stored, and the process moves
  to height 4 and starts round 0 there, while the bundle for height 9 is ignored.
\<close>

theorem syncLatestCommit_acts_on_old_bundle:
  "blkHeight (lcBlock exOldCommit) \<le> CurrentHeight (state exProcess)
   \<and> syncLatestCommit exEnv exOldCommit exProcess =
       Inr \<lparr>state = exState\<lparr>CurrentHeight := 4\<rparr>,
            blockchain = [0 \<mapsto> exBlock 7 0 0, 3 \<mapsto> exBlock 42 3 0],
            effects = [ScheduleTimeoutPropose 4 0 10]\<rparr>
   \<and> CurrentHeight (state exProcess) < blkHeight (lcBlock exFutureCommit)
   \<and> syncLatestCommit exEnv exFutureCommit exProcess = Inr exProcess"
  using exOldCommit_sync
  by (simp add: syncLatestCommit_def exOldCommit_def exFutureCommit_def ex_defs)

text \<open>
  Claim C2 says that catch-up never lowers the current height. On the bundle for height 3
  the process at height 5 is left at height 4.
\<close>

theorem syncLatestCommit_lowers_height:
  "(case syncLatestCommit exEnv exOldCommit exProcess of
      Inl e \<Rightarrow> False
    | Inr p' \<Rightarrow> CurrentHeight (state p') = 4 \<and> CurrentHeight (state exProcess) = 5
                \<and> CurrentHeight (state p') < CurrentHeight (state exProcess))"
  using exOldCommit_sync by (simp add: ex_defs)

section \<open>The commit check\<close>

text \<open>
  Claim C3. \<open>checkProposeInCurrentHeightWithPrecommits\<close> changes the process exactly when
  the tally holds a proposal of the scheduled proposer for the current height and the given
  round, more than \<open>2F\<close> precommits of that height and round carry the hash of its block,
  no block is stored at the current height, and the block is valid. Then the block is stored
  at the current height, the height goes up by one, the state is reset, the Observer (when
  there is one) is notified once, and round 0 is started, which cannot fail since the block
  before the new height is the one just stored. Precommits for other hashes or nil do not
  count towards the quorum.
\<close>

theorem commit_check:
  fixes env :: Env and round :: Round and p :: Process
  shows
  "(checkProposeInCurrentHeightWithPrecommits env round p \<noteq> Inr p
      \<longleftrightarrow> (\<exists>propose.
             QueryByHeightRoundSignatory proposeView (Proposals (state p)) (CurrentHeight (state p))
               round (scheduler env (CurrentHeight (state p)) round) = Some propose
           \<and> QueryByHeightRoundBlockHash precommitView (Precommits (state p))
               (CurrentHeight (state p)) round (blkHash (prBlock propose))
               > 2 * F (Precommits (state p))
           \<and> \<not> BlockExistsAtHeight p (CurrentHeight (state p))
           \<and> validator env (prBlock propose) True))
   \<and> (\<forall>propose.
         QueryByHeightRoundSignatory proposeView (Proposals (state p)) (CurrentHeight (state p))
           round (scheduler env (CurrentHeight (state p)) round) = Some propose
       \<and> QueryByHeightRoundBlockHash precommitView (Precommits (state p))
           (CurrentHeight (state p)) round (blkHash (prBlock propose))
           > 2 * F (Precommits (state p))
       \<and> \<not> BlockExistsAtHeight p (CurrentHeight (state p))
       \<and> validator env (prBlock propose) True
       \<longrightarrow> (\<exists>e. checkProposeInCurrentHeightWithPrecommits env round p =
                  Inr \<lparr>state = (Reset (CurrentHeight (state p))
                                 ((state p)\<lparr>CurrentHeight := CurrentHeight (state p) + 1\<rparr>))
                                \<lparr>CurrentRound := 0, CurrentStep := StepPropose\<rparr>,
                       blockchain = (blockchain p)(CurrentHeight (state p) \<mapsto> prBlock propose),
                       effects = effects p
                                 @ (if observer env then [DidCommitBlock (CurrentHeight (state p))] else [])
                                 @ [e]\<rparr>
               \<and> (e = ScheduleTimeoutPropose (CurrentHeight (state p) + 1) 0 (timer env StepPropose 0)
                  \<or> (\<exists>m. e = Broadcast (MPropose m)))))"
proof (cases "QueryByHeightRoundSignatory proposeView (Proposals (state p)) (CurrentHeight (state p))
               round (scheduler env (CurrentHeight (state p)) round)")
  case None
  then show ?thesis
    by (simp add: checkProposeInCurrentHeightWithPrecommits_def Let_def)
next
  case (Some propose)
  let ?h = "CurrentHeight (state p)"
  let ?cond = "QueryByHeightRoundBlockHash precommitView (Precommits (state p)) ?h round
                 (blkHash (prBlock propose)) > 2 * F (Precommits (state p))
               \<and> \<not> BlockExistsAtHeight p ?h \<and> validator env (prBlock propose) True"
  show ?thesis
  proof (cases ?cond)
    case False
    with Some show ?thesis
      by (auto simp: checkProposeInCurrentHeightWithPrecommits_def Let_def)
  next
    case True
    let ?p3 = "\<lparr>state = Reset ?h ((state p)\<lparr>CurrentHeight := ?h + 1\<rparr>),
                blockchain = (blockchain p)(?h \<mapsto> prBlock propose),
                effects = effects p @ (if observer env then [DidCommitBlock ?h] else [])\<rparr>"
    have run: "checkProposeInCurrentHeightWithPrecommits env round p = startRound env 0 ?p3"
      using Some True
      by (cases p) (simp add: checkProposeInCurrentHeightWithPrecommits_def Let_def
          InsertBlockAtHeight_def setState_def emit_def Reset_def)
    have prev: "blockchain ?p3 (CurrentHeight (state ?p3) - 1) = Some (prBlock propose)"
      by (simp add: Reset_def)
    from startRound_previous_block [OF prev, of env 0]
    obtain e where e: "startRound env 0 ?p3 =
          Inr (?p3\<lparr>state := (state ?p3)\<lparr>CurrentRound := 0, CurrentStep := StepPropose\<rparr>,
                 effects := effects ?p3 @ [e]\<rparr>)"
       and e': "e = ScheduleTimeoutPropose (CurrentHeight (state ?p3)) 0 (timer env StepPropose 0)
          \<or> (\<exists>m. e = Broadcast (MPropose m))"
      by blast
    have h': "CurrentHeight (state ?p3) = ?h + 1" by (simp add: Reset_def)
    have res: "checkProposeInCurrentHeightWithPrecommits env round p =
                  Inr \<lparr>state = (Reset ?h ((state p)\<lparr>CurrentHeight := ?h + 1\<rparr>))
                                \<lparr>CurrentRound := 0, CurrentStep := StepPropose\<rparr>,
                       blockchain = (blockchain p)(?h \<mapsto> prBlock propose),
                       effects = effects p @ (if observer env then [DidCommitBlock ?h] else []) @ [e]\<rparr>"
      using run e by simp
    have ne: "checkProposeInCurrentHeightWithPrecommits env round p \<noteq> Inr p"
    proof
      assume "checkProposeInCurrentHeightWithPrecommits env round p = Inr p"
      with res have "CurrentHeight (state p) = CurrentHeight ((Reset ?h ((state p)\<lparr>CurrentHeight := ?h + 1\<rparr>))
                                \<lparr>CurrentRound := 0, CurrentStep := StepPropose\<rparr>)"
        by (metis Process.select_convs(1) sum.inject(2))
      then show False by (simp add: Reset_def)
    qed
    show ?thesis using Some True res ne e' h' by auto
  qed
qed

lemma exCommitProcess_commits:
  "checkProposeInCurrentHeightWithPrecommits exEnv 0 exCommitProcess =
     Inr \<lparr>state = exState\<lparr>CurrentHeight := 6,
                Proposals := \<lparr>inboxF = 1, inboxMessages = [exPropose 0 InvalidRound]\<rparr>,
                Precommits := \<lparr>inboxF = 1, inboxMessages =
                         [exPrecommit 1 5 0 42, exPrecommit 2 5 0 42, exPrecommit 3 5 0 42]\<rparr>\<rparr>,
          blockchain = [0 \<mapsto> exBlock 7 0 0, 5 \<mapsto> exBlock 42 5 0],
          effects = [DidCommitBlock 5, ScheduleTimeoutPropose 6 0 10]\<rparr>"
  by (simp add: checkProposeInCurrentHeightWithPrecommits_def exCommitProcess_def tally_defs ex_defs
      Let_def BlockExistsAtHeight_def InsertBlockAtHeight_def setState_def emit_def Reset_def
      inboxReset_def startRound_def BlockAtHeight_def const_defs)

theorem commit_check_witness:
  "checkProposeInCurrentHeightWithPrecommits exEnv 0 exCommitProcess \<noteq> Inr exCommitProcess
   \<and> checkProposeInCurrentHeightWithPrecommits exEnv 0 exCommitProcess =
     Inr \<lparr>state = exState\<lparr>CurrentHeight := 6,
                Proposals := \<lparr>inboxF = 1, inboxMessages = [exPropose 0 InvalidRound]\<rparr>,
                Precommits := \<lparr>inboxF = 1, inboxMessages =
                         [exPrecommit 1 5 0 42, exPrecommit 2 5 0 42, exPrecommit 3 5 0 42]\<rparr>\<rparr>,
          blockchain = [0 \<mapsto> exBlock 7 0 0, 5 \<mapsto> exBlock 42 5 0],
          effects = [DidCommitBlock 5, ScheduleTimeoutPropose 6 0 10]\<rparr>
   \<and> QueryByHeightRoundBlockHash precommitView (Precommits (state exSplitProcess)) 5 0 42 = 2
   \<and> QueryByHeightRoundBlockHash precommitView (Precommits (state exSplitProcess)) 5 0 43 = 1
   \<and> QueryByHeightRoundBlockHash precommitView (Precommits (state exSplitProcess)) 5 0 InvalidHash = 1
   \<and> checkProposeInCurrentHeightWithPrecommits exEnv 0 exSplitProcess = Inr exSplitProcess"
proof -
  have q: "QueryByHeightRoundSignatory proposeView (Proposals (state exCommitProcess))
             (CurrentHeight (state exCommitProcess)) 0
             (scheduler exEnv (CurrentHeight (state exCommitProcess)) 0) = Some (exPropose 0 InvalidRound)"
    by (simp add: exCommitProcess_def tally_defs ex_defs const_defs)
  have n: "QueryByHeightRoundBlockHash precommitView (Precommits (state exCommitProcess))
             (CurrentHeight (state exCommitProcess)) 0 (blkHash (prBlock (exPropose 0 InvalidRound)))
           > 2 * F (Precommits (state exCommitProcess))"
    by (simp add: exCommitProcess_def tally_defs ex_defs const_defs)
  have b: "\<not> BlockExistsAtHeight exCommitProcess (CurrentHeight (state exCommitProcess))"
    by (simp add: exCommitProcess_def BlockExistsAtHeight_def ex_defs)
  have v: "validator exEnv (prBlock (exPropose 0 InvalidRound)) True"
    by (simp add: exEnv_def)
  have commit: "checkProposeInCurrentHeightWithPrecommits exEnv 0 exCommitProcess \<noteq> Inr exCommitProcess"
    using commit_check [of exEnv 0 exCommitProcess] q n b v by blast
  have q': "QueryByHeightRoundSignatory proposeView (Proposals (state exSplitProcess))
             (CurrentHeight (state exSplitProcess)) 0
             (scheduler exEnv (CurrentHeight (state exSplitProcess)) 0) = Some (exPropose 0 InvalidRound)"
    by (simp add: exSplitProcess_def tally_defs ex_defs const_defs)
  have n': "\<not> QueryByHeightRoundBlockHash precommitView (Precommits (state exSplitProcess))
             (CurrentHeight (state exSplitProcess)) 0 (blkHash (prBlock (exPropose 0 InvalidRound)))
           > 2 * F (Precommits (state exSplitProcess))"
    by (simp add: exSplitProcess_def tally_defs ex_defs const_defs)
  have split: "checkProposeInCurrentHeightWithPrecommits exEnv 0 exSplitProcess = Inr exSplitProcess"
    using commit_check [of exEnv 0 exSplitProcess] q' n' by auto
  have counts:
    "QueryByHeightRoundBlockHash precommitView (Precommits (state exSplitProcess)) 5 0 42 = 2"
    "QueryByHeightRoundBlockHash precommitView (Precommits (state exSplitProcess)) 5 0 43 = 1"
    "QueryByHeightRoundBlockHash precommitView (Precommits (state exSplitProcess)) 5 0 InvalidHash = 1"
    by (simp_all add: exSplitProcess_def tally_defs ex_defs const_defs)
  show ?thesis using commit split counts exCommitProcess_commits by simp
qed

section \<open>Proposal and prevote quorum, first time\<close>





section \<open>The first-round propose rule\<close>





section \<open>Jumping to a later round\<close>

lemma exSkip_insert:
  "Insert prevoteView (Prevotes (state exSkipProcess)) (exPrevote 4 3 42) =
     (Prevotes (state exSkipInserted), 2, False, True, False)"
  by (simp add: Insert_def exSkipProcess_def exSkipInserted_def tally_defs ex_defs Let_def)

lemma exSkip_handle:
  "handlePrevote exEnv (exPrevote 4 3 42) exSkipProcess =
     Inr (exSkipInserted\<lparr>state := (state exSkipInserted)\<lparr>CurrentRound := 3, CurrentStep := StepPrevote\<rparr>,
                         effects := [ScheduleTimeoutPropose 5 3 10,
                                     Broadcast (MPrevote (NewPrevote 5 3 42))]\<rparr>)"
  by (simp add: handlePrevote_def exSkip_insert)
     (simp add: exSkipProcess_def exSkipInserted_def prevoteRules_def tally_defs ex_defs Let_def
        setState_def emit_def startRound_def const_defs
        checkProposeInCurrentHeightAndRoundWithPrevotes_def NewPrevote_def
        word_sless_alt word_sle_eq)

lemma exSkip_startRound:
  "startRound exEnv 3 exSkipInserted =
     Inr (exSkipInserted\<lparr>state := (state exSkipInserted)\<lparr>CurrentRound := 3, CurrentStep := StepPropose\<rparr>,
                         effects := [ScheduleTimeoutPropose 5 3 10]\<rparr>)"
  by (simp add: exSkipInserted_def ex_defs startRound_def Let_def emit_def const_defs)

text \<open>
  Claim C6 says that after the jump to the round of the prevote the handler stops. In
  \<open>handlePrevote\<close> the checks run after \<open>startRound\<close>, in the new round. Here the
  process holds the proposal for round 3 with valid round 1 and a prevote quorum of round 1:
  the second prevote of round 3 starts round 3, and the check then broadcasts a prevote and
  leaves the process in step Prevote.
\<close>

theorem skip_ahead_continues_counterexample:
  "pvHeight (exPrevote 4 3 42) = CurrentHeight (state exSkipProcess)
   \<and> CurrentRound (state exSkipProcess) <s pvRound (exPrevote 4 3 42)
   \<and> Insert prevoteView (Prevotes (state exSkipProcess)) (exPrevote 4 3 42) =
       (Prevotes (state exSkipInserted), 2, False, True, False)
   \<and> 2 > F (Prevotes (state exSkipProcess))
   \<and> startRound exEnv 3 exSkipInserted =
       Inr (exSkipInserted\<lparr>state := (state exSkipInserted)\<lparr>CurrentRound := 3, CurrentStep := StepPropose\<rparr>,
                           effects := [ScheduleTimeoutPropose 5 3 10]\<rparr>)
   \<and> handlePrevote exEnv (exPrevote 4 3 42) exSkipProcess =
       Inr (exSkipInserted\<lparr>state := (state exSkipInserted)\<lparr>CurrentRound := 3, CurrentStep := StepPrevote\<rparr>,
                           effects := [ScheduleTimeoutPropose 5 3 10,
                                       Broadcast (MPrevote (NewPrevote 5 3 42))]\<rparr>)
   \<and> handlePrevote exEnv (exPrevote 4 3 42) exSkipProcess \<noteq> startRound exEnv 3 exSkipInserted"
proof -
  have a: "pvHeight (exPrevote 4 3 42) = CurrentHeight (state exSkipProcess)"
    "CurrentRound (state exSkipProcess) <s pvRound (exPrevote 4 3 42)"
    "2 > F (Prevotes (state exSkipProcess))"
    by (simp_all add: exPrevote_def exSkipProcess_def exState_def F_def word_sless_alt)
  have ne: "handlePrevote exEnv (exPrevote 4 3 42) exSkipProcess \<noteq> startRound exEnv 3 exSkipInserted"
    by (simp only: exSkip_handle exSkip_startRound) (simp add: exSkipInserted_def)
  show ?thesis using a ne exSkip_insert exSkip_handle exSkip_startRound by simp
qed

text \<open>
  Claim C6, amended. For a prevote of the current height and a later round whose insertion
  brings the count of its height and round above \<open>F\<close>, the handler starts the round of the
  prevote, which leaves the process at that height and round in step Propose, and then runs
  the checks of the proposal against the prevotes in the new round. When the tally holds no
  proposal of the scheduled proposer for that round the checks do nothing, and the handler
  ends with what \<open>startRound\<close> left.
\<close>

theorem skip_ahead_then_checks:
  assumes ins: "Insert prevoteView (Prevotes (state p)) m =
                  (inbox, n, firstTime, firstTimeExceedingF, firstTimeExceeding2F)"
    and p2: "p2 = prevoteRules env m firstTimeExceeding2F (setState ((state p)\<lparr>Prevotes := inbox\<rparr>) p)"
    and n: "n > F (Prevotes (state p))"
    and h: "pvHeight m = CurrentHeight (state p)"
    and r: "CurrentRound (state p) <s pvRound m"
  shows "handlePrevote env m p =
           (case startRound env (pvRound m) p2 of
              Inl e \<Rightarrow> Inl e
            | Inr p3 \<Rightarrow>
                Inr (let p4 = checkProposeInCurrentHeightAndRoundWithPrevotes env p3
                     in if firstTimeExceeding2F
                        then checkProposeInCurrentHeightAndRoundWithPrevotesForTheFirstTime env p4
                        else p4))
         \<and> (\<forall>p3. startRound env (pvRound m) p2 = Inr p3 \<longrightarrow>
                CurrentHeight (state p3) = CurrentHeight (state p)
              \<and> CurrentRound (state p3) = pvRound m
              \<and> CurrentStep (state p3) = StepPropose)
         \<and> (QueryByHeightRoundSignatory proposeView (Proposals (state p)) (CurrentHeight (state p))
               (pvRound m) (scheduler env (CurrentHeight (state p)) (pvRound m)) = None
            \<longrightarrow> handlePrevote env m p = startRound env (pvRound m) p2)"
proof -
  have keep: "CurrentHeight (state p2) = CurrentHeight (state p)"
    "CurrentRound (state p2) = CurrentRound (state p)"
    "Proposals (state p2) = Proposals (state p)"
    "Prevotes (state p2) = inbox"
    by (simp_all add: p2 prevoteRules_keeps setState_def)
  have f: "F inbox = F (Prevotes (state p))"
    using Insert_inboxF [OF ins] by (simp add: F_def)
  have run: "handlePrevote env m p =
           (case startRound env (pvRound m) p2 of
              Inl e \<Rightarrow> Inl e
            | Inr p3 \<Rightarrow>
                Inr (let p4 = checkProposeInCurrentHeightAndRoundWithPrevotes env p3
                     in if firstTimeExceeding2F
                        then checkProposeInCurrentHeightAndRoundWithPrevotesForTheFirstTime env p4
                        else p4))"
    using n h r
    by (simp add: handlePrevote_def ins Let_def p2 [symmetric] f keep split: sum.splits)
  have st: "CurrentHeight (state p3) = CurrentHeight (state p)
              \<and> CurrentRound (state p3) = pvRound m
              \<and> CurrentStep (state p3) = StepPropose
              \<and> Proposals (state p3) = Proposals (state p)"
    if "startRound env (pvRound m) p2 = Inr p3" for p3
    using startRound_Inr_state [OF that] by (simp add: keep)
  have none: "handlePrevote env m p = startRound env (pvRound m) p2"
    if q: "QueryByHeightRoundSignatory proposeView (Proposals (state p)) (CurrentHeight (state p))
               (pvRound m) (scheduler env (CurrentHeight (state p)) (pvRound m)) = None"
  proof (cases "startRound env (pvRound m) p2")
    case (Inl e)
    then show ?thesis by (simp add: run)
  next
    case (Inr p3)
    from st [OF Inr] q
    have "QueryByHeightRoundSignatory proposeView (Proposals (state p3)) (CurrentHeight (state p3))
             (CurrentRound (state p3)) (scheduler env (CurrentHeight (state p3)) (CurrentRound (state p3))) = None"
      by simp
    from checks_without_proposal [OF this] Inr show ?thesis
      by (simp add: run Let_def)
  qed
  show ?thesis using run st none by blast
qed

theorem skip_ahead_then_checks_witness:
  "handlePrevote exEnv (exPrevote 4 3 42) exSkipNoProposal =
     Inr (exSkipNoProposalInserted
            \<lparr>state := (state exSkipNoProposalInserted)\<lparr>CurrentRound := 3, CurrentStep := StepPropose\<rparr>,
             effects := [ScheduleTimeoutPropose 5 3 10]\<rparr>)"
proof -
  have ins: "Insert prevoteView (Prevotes (state exSkipNoProposal)) (exPrevote 4 3 42) =
     (Prevotes (state exSkipNoProposalInserted), 2, False, True, False)"
    by (simp add: Insert_def exSkipNoProposal_def exSkipNoProposalInserted_def tally_defs ex_defs Let_def)
  have p2: "exSkipNoProposalInserted =
      prevoteRules exEnv (exPrevote 4 3 42) False
        (setState ((state exSkipNoProposal)\<lparr>Prevotes := Prevotes (state exSkipNoProposalInserted)\<rparr>)
           exSkipNoProposal)"
    by (simp add: prevoteRules_def exSkipNoProposal_def exSkipNoProposalInserted_def tally_defs ex_defs
        Let_def setState_def const_defs)
  have n: "2 > F (Prevotes (state exSkipNoProposal))"
    and h: "pvHeight (exPrevote 4 3 42) = CurrentHeight (state exSkipNoProposal)"
    and r: "CurrentRound (state exSkipNoProposal) <s pvRound (exPrevote 4 3 42)"
    by (simp_all add: exPrevote_def exSkipNoProposal_def exState_def F_def word_sless_alt)
  have q: "QueryByHeightRoundSignatory proposeView (Proposals (state exSkipNoProposal))
             (CurrentHeight (state exSkipNoProposal)) (pvRound (exPrevote 4 3 42))
             (scheduler exEnv (CurrentHeight (state exSkipNoProposal)) (pvRound (exPrevote 4 3 42))) = None"
    by (simp add: exSkipNoProposal_def tally_defs ex_defs)
  have sr: "startRound exEnv 3 exSkipNoProposalInserted =
     Inr (exSkipNoProposalInserted
            \<lparr>state := (state exSkipNoProposalInserted)\<lparr>CurrentRound := 3, CurrentStep := StepPropose\<rparr>,
             effects := [ScheduleTimeoutPropose 5 3 10]\<rparr>)"
    by (simp add: exSkipNoProposalInserted_def ex_defs startRound_def Let_def emit_def const_defs)
  have pr: "pvRound (exPrevote 4 3 42) = 3" by (simp add: exPrevote_def)
  from skip_ahead_then_checks [OF ins p2 n h r] q
  have "handlePrevote exEnv (exPrevote 4 3 42) exSkipNoProposal =
          startRound exEnv (pvRound (exPrevote 4 3 42)) exSkipNoProposalInserted"
    by blast
  with sr pr show ?thesis by simp
qed

section \<open>Timeouts: the stamp is checked again\<close>

lemma exProcess_startRound_1:
  "startRound exEnv 1 exProcess =
     Inr (exProcess\<lparr>state := exState\<lparr>CurrentRound := 1\<rparr>,
                    effects := [ScheduleTimeoutPropose 5 1 10]\<rparr>)"
  by (simp add: startRound_def ex_defs Let_def emit_def const_defs)

text \<open>
  Claim C7. A timeout handler whose stamp (height, round, and for the propose and prevote
  timeouts the step) no longer matches the state returns the process as it was: no field
  changed, nothing broadcast. With a matching stamp \<open>timeoutPropose\<close> broadcasts a nil
  prevote and moves to step Prevote, \<open>timeoutPrevote\<close> broadcasts a nil precommit and moves
  to step Precommit, and \<open>timeoutPrecommit\<close> is \<open>startRound (currentRound + 1)\<close> whatever
  the step.
\<close>

theorem timeout_handlers:
  "(\<not> (height = CurrentHeight (state p) \<and> round = CurrentRound (state p)
        \<and> CurrentStep (state p) = StepPropose)
      \<longrightarrow> timeoutPropose env height round p = Inr p)
   \<and> (height = CurrentHeight (state p) \<and> round = CurrentRound (state p)
        \<and> CurrentStep (state p) = StepPropose
      \<longrightarrow> timeoutPropose env height round p =
            Inr (p\<lparr>state := (state p)\<lparr>CurrentStep := StepPrevote\<rparr>,
                   effects := effects p @ [Broadcast (MPrevote (NewPrevote height round InvalidHash))]\<rparr>))
   \<and> (\<not> (height = CurrentHeight (state p) \<and> round = CurrentRound (state p)
        \<and> CurrentStep (state p) = StepPrevote)
      \<longrightarrow> timeoutPrevote env height round p = Inr p)
   \<and> (height = CurrentHeight (state p) \<and> round = CurrentRound (state p)
        \<and> CurrentStep (state p) = StepPrevote
      \<longrightarrow> timeoutPrevote env height round p =
            Inr (p\<lparr>state := (state p)\<lparr>CurrentStep := StepPrecommit\<rparr>,
                   effects := effects p @ [Broadcast (MPrecommit (NewPrecommit height round InvalidHash))]\<rparr>))
   \<and> (\<not> (height = CurrentHeight (state p) \<and> round = CurrentRound (state p))
      \<longrightarrow> timeoutPrecommit env height round p = Inr p)
   \<and> (height = CurrentHeight (state p) \<and> round = CurrentRound (state p)
      \<longrightarrow> timeoutPrecommit env height round p = startRound env (CurrentRound (state p) + 1) p)"
  by (simp add: timeoutPropose_def timeoutPrevote_def timeoutPrecommit_def Let_def emit_def setState_def)

theorem timeout_handlers_witness:
  "timeoutPropose exEnv 5 0 exProcess =
     Inr (exProcess\<lparr>state := exState\<lparr>CurrentStep := StepPrevote\<rparr>,
                    effects := [Broadcast (MPrevote (NewPrevote 5 0 InvalidHash))]\<rparr>)
   \<and> timeoutPropose exEnv 4 0 exProcess = Inr exProcess
   \<and> timeoutPrevote exEnv 5 0 exProcess = Inr exProcess
   \<and> timeoutPrevote exEnv 5 0 (exProcess\<lparr>state := exState\<lparr>CurrentStep := StepPrevote\<rparr>\<rparr>) =
     Inr (exProcess\<lparr>state := exState\<lparr>CurrentStep := StepPrecommit\<rparr>,
                    effects := [Broadcast (MPrecommit (NewPrecommit 5 0 InvalidHash))]\<rparr>)
   \<and> timeoutPrecommit exEnv 5 1 exProcess = Inr exProcess
   \<and> timeoutPrecommit exEnv 5 0 exProcess =
     Inr (exProcess\<lparr>state := exState\<lparr>CurrentRound := 1\<rparr>,
                    effects := [ScheduleTimeoutPropose 5 1 10]\<rparr>)"
proof -
  have s: "state exProcess = exState" "CurrentHeight exState = 5" "CurrentRound exState = 0"
    "CurrentStep exState = StepPropose" "effects exProcess = []"
    by (simp_all add: exProcess_def exState_def)
  have ne: "StepPropose \<noteq> StepPrevote" by (simp add: const_defs)
  show ?thesis
    using timeout_handlers [of 5 exProcess 0 exEnv] timeout_handlers [of 4 exProcess 0 exEnv]
      timeout_handlers [of 5 "exProcess\<lparr>state := exState\<lparr>CurrentStep := StepPrevote\<rparr>\<rparr>" 0 exEnv]
      timeout_handlers [of 5 exProcess 1 exEnv] exProcess_startRound_1
    by (simp add: s ne)
qed

section \<open>Binary round trip of the state\<close>

lemma ucast_byte: "(ucast (ucast x :: byte) :: 64 word) = take_bit 8 x"
  by (rule bit_word_eqI) (simp add: bit_simps)

lemma byte_step:
  fixes w :: "64 word"
  shows "take_bit 8 (drop_bit k w) OR push_bit 8 (drop_bit (8 + k) w) = drop_bit k w"
proof (rule bit_word_eqI)
  fix n
  assume "n < LENGTH(64)"
  show "bit (take_bit 8 (drop_bit k w) OR push_bit 8 (drop_bit (8 + k) w)) n = bit (drop_bit k w) n"
  proof (cases "n < 8")
    case True
    then show ?thesis by (simp add: bit_simps)
  next
    case False
    then have "8 + k + (n - 8) = k + n" by simp
    with False \<open>n < LENGTH(64)\<close> show ?thesis by (simp add: bit_simps)
  qed
qed

lemma top_byte:
  fixes w :: "64 word"
  shows "take_bit 8 (drop_bit 56 w) = drop_bit 56 w"
  by (rule bit_word_eqI) (auto simp: bit_simps dest: bit_imp_le_length)

lemma littleEndian_writeU64: "littleEndian (writeU64 w) = w"
  using byte_step [of 48 w] byte_step [of 40 w] byte_step [of 32 w] byte_step [of 24 w]
    byte_step [of 16 w] byte_step [of 8 w] byte_step [of 0 w]
  by (simp add: writeU64_def ucast_byte top_byte)

lemma length_writeU64: "length (writeU64 w) = 8"
  by (simp add: writeU64_def)

lemma readU64_writeU64: "readU64 (writeU64 w @ rest) = Inr (w, rest)"
proof -
  have "writeU64 w @ rest \<noteq> []" using length_writeU64 [of w] by auto
  then show ?thesis
    by (simp add: readU64_def length_writeU64 littleEndian_writeU64)
qed

lemma readFixed64_written:
  "readFixed64 what store s (writeU64 w @ rest) = (None, store w s, rest)"
  by (simp add: readFixed64_def readU64_writeU64)

lemma readFixed8_written:
  "readFixed8 what store s (b # rest) = (None, store b s, rest)"
  by (simp add: readFixed8_def readU8_def)

lemma bufRead_exact: "bufRead (length data) (data @ rest) = Inr (data, rest)"
  by (simp add: bufRead_def)

lemma makeBytes_length:
  assumes "length data \<le> maxAlloc"
  shows "makeBytes (of_nat (length data)) = Inr (length data)"
proof -
  have "length data < 2 ^ LENGTH(64)" using assms by (simp add: maxAlloc_def)
  then have "unat (of_nat (length data) :: 64 word) = length data"
    by (simp add: unat_of_nat)
  with assms show ?thesis by (simp add: makeBytes_def)
qed

lemma readMarshalled_written:
  assumes "roundTrips codec" and "marshalBinary codec x = Inr data"
  shows "readMarshalled what codec field store s (writeU64 (of_nat (length data)) @ data @ rest) =
           (None, store x s, rest)"
proof -
  from assms have len: "length data \<le> maxAlloc"
    and dec: "unmarshalBinary codec (field s) data = (None, x)"
    by (auto simp: roundTrips_def)
  show ?thesis
    by (simp add: readMarshalled_def readU64_writeU64 makeBytes_length [OF len] bufRead_exact dec)
qed

lemma MarshalBinary_parts:
  assumes "MarshalBinary c s = (data, None)"
  shows "\<exists>lockedBlockData validBlockData proposalsData prevotesData precommitsData.
           marshalBinary (blockCodec c) (LockedBlock s) = Inr lockedBlockData
         \<and> marshalBinary (blockCodec c) (ValidBlock s) = Inr validBlockData
         \<and> marshalBinary (proposalsCodec c) (Proposals s) = Inr proposalsData
         \<and> marshalBinary (prevotesCodec c) (Prevotes s) = Inr prevotesData
         \<and> marshalBinary (precommitsCodec c) (Precommits s) = Inr precommitsData
         \<and> data = writeU64 (CurrentHeight s) @ writeU64 (CurrentRound s) @ CurrentStep s
                    # writeU64 (of_nat (length lockedBlockData)) @ lockedBlockData
                    @ writeU64 (LockedRound s)
                    @ writeU64 (of_nat (length validBlockData)) @ validBlockData
                    @ writeU64 (ValidRound s)
                    @ writeU64 (of_nat (length proposalsData)) @ proposalsData
                    @ writeU64 (of_nat (length prevotesData)) @ prevotesData
                    @ writeU64 (of_nat (length precommitsData)) @ precommitsData"
  using assms
  by (auto simp: MarshalBinary_def writeFixed_def writeMarshalled_def split: sum.splits)

lemma MarshalBinary_succeeds:
  assumes "marshalBinary (blockCodec c) (LockedBlock s) = Inr lockedBlockData"
    and "marshalBinary (blockCodec c) (ValidBlock s) = Inr validBlockData"
    and "marshalBinary (proposalsCodec c) (Proposals s) = Inr proposalsData"
    and "marshalBinary (prevotesCodec c) (Prevotes s) = Inr prevotesData"
    and "marshalBinary (precommitsCodec c) (Precommits s) = Inr precommitsData"
  shows "snd (MarshalBinary c s) = None"
  using assms by (simp add: MarshalBinary_def writeFixed_def writeMarshalled_def)

lemma readU64_writeU64_only: "readU64 (writeU64 w) = Inr (w, [])"
  using readU64_writeU64 [of w "[]"] by simp

lemma exBlockCodec_roundTrips: "roundTrips exBlockCodec"
  by (auto simp: roundTrips_def exBlockCodec_def readU64_writeU64 readU64_writeU64_only
      length_writeU64 maxAlloc_def split: if_splits)

lemma exInboxCodec_roundTrips: "roundTrips exInboxCodec"
proof -
  have "uint (word_of_int k :: 64 word) = k" if "0 \<le> k" "k < 2 ^ 63" for k
  proof -
    from that have "k < 2 ^ 64" by simp
    with that show ?thesis by (simp add: uint_word_of_int)
  qed
  then show ?thesis
    by (auto simp: roundTrips_def exInboxCodec_def readU64_writeU64_only length_writeU64
        maxAlloc_def split: if_splits)
qed

text \<open>
  Claim C8. When the binary forms of blocks and tallies round-trip, \<open>UnmarshalBinary\<close> on
  what \<open>MarshalBinary\<close> returned without error succeeds and gives the state back, field
  by field, whatever the receiving state held before; and \<open>MarshalBinary\<close> returns without
  error whenever the locked and valid block and the three tallies can be marshalled.
\<close>

theorem binary_round_trip:
  assumes "roundTrips (blockCodec c)" and "roundTrips (proposalsCodec c)"
    and "roundTrips (prevotesCodec c)" and "roundTrips (precommitsCodec c)"
  shows "(\<forall>data. MarshalBinary c s = (data, None) \<longrightarrow> UnmarshalBinary c data s0 = (None, s))
       \<and> ((\<exists>d. marshalBinary (blockCodec c) (LockedBlock s) = Inr d)
          \<and> (\<exists>d. marshalBinary (blockCodec c) (ValidBlock s) = Inr d)
          \<and> (\<exists>d. marshalBinary (proposalsCodec c) (Proposals s) = Inr d)
          \<and> (\<exists>d. marshalBinary (prevotesCodec c) (Prevotes s) = Inr d)
          \<and> (\<exists>d. marshalBinary (precommitsCodec c) (Precommits s) = Inr d)
          \<longrightarrow> snd (MarshalBinary c s) = None)"
proof -
  have decode: "UnmarshalBinary c data s0 = (None, s)" if enc: "MarshalBinary c s = (data, None)" for data
  proof -
    from MarshalBinary_parts [OF enc]
    obtain lockedBlockData validBlockData proposalsData prevotesData precommitsData where
      m: "marshalBinary (blockCodec c) (LockedBlock s) = Inr lockedBlockData"
         "marshalBinary (blockCodec c) (ValidBlock s) = Inr validBlockData"
         "marshalBinary (proposalsCodec c) (Proposals s) = Inr proposalsData"
         "marshalBinary (prevotesCodec c) (Prevotes s) = Inr prevotesData"
         "marshalBinary (precommitsCodec c) (Precommits s) = Inr precommitsData"
      and data: "data = writeU64 (CurrentHeight s) @ writeU64 (CurrentRound s) @ CurrentStep s
                      # writeU64 (of_nat (length lockedBlockData)) @ lockedBlockData
                      @ writeU64 (LockedRound s)
                      @ writeU64 (of_nat (length validBlockData)) @ validBlockData
                      @ writeU64 (ValidRound s)
                      @ writeU64 (of_nat (length proposalsData)) @ proposalsData
                      @ writeU64 (of_nat (length prevotesData)) @ prevotesData
                      @ writeU64 (of_nat (length precommitsData)) @ precommitsData"
      by blast
    note rd = readMarshalled_written [OF assms(1) m(1)] readMarshalled_written [OF assms(1) m(2)]
      readMarshalled_written [OF assms(2) m(3)] readMarshalled_written [OF assms(3) m(4)]
      readMarshalled_written [OF assms(4) m(5), where rest = "[]", simplified]
    show ?thesis
      unfolding UnmarshalBinary_def data
      by (simp add: readFixed64_written readFixed8_written rd)
  qed
  have encode: "snd (MarshalBinary c s) = None"
    if "(\<exists>d. marshalBinary (blockCodec c) (LockedBlock s) = Inr d)
          \<and> (\<exists>d. marshalBinary (blockCodec c) (ValidBlock s) = Inr d)
          \<and> (\<exists>d. marshalBinary (proposalsCodec c) (Proposals s) = Inr d)
          \<and> (\<exists>d. marshalBinary (prevotesCodec c) (Prevotes s) = Inr d)
          \<and> (\<exists>d. marshalBinary (precommitsCodec c) (Precommits s) = Inr d)"
    using that MarshalBinary_succeeds by blast
  from decode encode show ?thesis by blast
qed

theorem binary_round_trip_witness:
  "roundTrips (blockCodec exCodecs) \<and> roundTrips (proposalsCodec exCodecs)
   \<and> roundTrips (prevotesCodec exCodecs) \<and> roundTrips (precommitsCodec exCodecs)
   \<and> snd (MarshalBinary exCodecs exState) = None
   \<and> UnmarshalBinary exCodecs (fst (MarshalBinary exCodecs exState))
        (exState\<lparr>CurrentHeight := 1, CurrentStep := StepPrecommit, LockedRound := 0\<rparr>) =
      (None, exState)"
proof -
  have rt: "roundTrips (blockCodec exCodecs)" "roundTrips (proposalsCodec exCodecs)"
    "roundTrips (prevotesCodec exCodecs)" "roundTrips (precommitsCodec exCodecs)"
    by (simp_all add: exCodecs_def exBlockCodec_roundTrips exInboxCodec_roundTrips)
  have m: "\<exists>d. marshalBinary (blockCodec exCodecs) (LockedBlock exState) = Inr d"
    "\<exists>d. marshalBinary (blockCodec exCodecs) (ValidBlock exState) = Inr d"
    "\<exists>d. marshalBinary (proposalsCodec exCodecs) (Proposals exState) = Inr d"
    "\<exists>d. marshalBinary (prevotesCodec exCodecs) (Prevotes exState) = Inr d"
    "\<exists>d. marshalBinary (precommitsCodec exCodecs) (Precommits exState) = Inr d"
    by (simp_all add: exCodecs_def exBlockCodec_def exInboxCodec_def exState_def InvalidBlock_def)
  note round_trip = binary_round_trip [OF rt, of exState]
  from round_trip m have ok: "snd (MarshalBinary exCodecs exState) = None" by blast
  then have "MarshalBinary exCodecs exState = (fst (MarshalBinary exCodecs exState), None)"
    by (metis prod.collapse)
  with round_trip have "UnmarshalBinary exCodecs (fst (MarshalBinary exCodecs exState))
        (exState\<lparr>CurrentHeight := 1, CurrentStep := StepPrecommit, LockedRound := 0\<rparr>) =
      (None, exState)" by blast
  with rt ok show ?thesis by simp
qed

text \<open>
  Claim C10. Decoding is not atomic: on sixteen bytes, the little-endian forms of a height
  and a round and nothing after them, \<open>UnmarshalBinary\<close> returns the error of the read of
  \<open>CurrentStep\<close>, and the state it leaves has the height and round of the input instead of
  its own, for any binary forms of blocks and tallies.
\<close>

theorem unmarshal_not_atomic:
  "UnmarshalBinary c (writeU64 7 @ writeU64 3) exState =
     (Some (Errorf ''cannot read p.state.CurrentStep'' EOF),
      exState\<lparr>CurrentHeight := 7, CurrentRound := 3\<rparr>)
   \<and> exState\<lparr>CurrentHeight := 7, CurrentRound := 3\<rparr> \<noteq> exState"
proof -
  have "readFixed8 what store s [] = (Some (Errorf (''cannot read p.state.'' @ what) EOF), s, [])"
    for what store s
    by (simp add: readFixed8_def readU8_def)
  moreover have "readFixed64 what store s (writeU64 w) = (None, store w s, [])" for what store s w
    using readFixed64_written [of what store s w "[]"] by simp
  ultimately have "UnmarshalBinary c (writeU64 7 @ writeU64 3) exState =
     (Some (Errorf ''cannot read p.state.CurrentStep'' EOF),
      exState\<lparr>CurrentHeight := 7, CurrentRound := 3\<rparr>)"
    by (simp add: UnmarshalBinary_def readFixed64_written)
  moreover have "exState\<lparr>CurrentHeight := 7, CurrentRound := 3\<rparr> \<noteq> exState"
    by (simp add: exState_def)
  ultimately show ?thesis by simp
qed

section \<open>Filtering of inbound messages\<close>

lemma allowSignatories_lookup:
  "allowSignatories sigs m x = (if x \<in> set sigs then Some True else m x)"
  by (induction sigs arbitrary: m) auto

lemma filterFrom_new:
  "procsAllowed replica = newProcsAllowed signatories \<Longrightarrow>
     filterFrom replica from = (from \<in> set signatories)"
  by (simp add: filterFrom_def newProcsAllowed_def allowSignatories_lookup)

text \<open>
  Claim C9. For a replica whose \<open>procsAllowed\<close> was filled by \<open>New\<close> from the known
  signatories, an inbound Propose, Prevote or Precommit is handed to the insertion of the
  message queue for its kind (after which the queue is flushed to the process) exactly when
  its height is at least the current height of the replica and its sender is one of the
  signatories; otherwise the turn of the loop returns with the replica unchanged.
\<close>

theorem inbound_filter:
  assumes "procsAllowed replica = newProcsAllowed signatories"
  shows "(procCurrentHeight replica \<le> inHeight (inboundMessage ev)
            \<and> inFrom (inboundMessage ev) \<in> set signatories
          \<longrightarrow> runInbound q flush replica ev =
                flush (replica\<lparr>mq := insertInbound q ev (mq replica)\<rparr>))
       \<and> (\<not> (procCurrentHeight replica \<le> inHeight (inboundMessage ev)
               \<and> inFrom (inboundMessage ev) \<in> set signatories)
          \<longrightarrow> runInbound q flush replica ev = replica)"
  using filterFrom_new [OF assms]
  by (cases ev) (auto simp: filterHeight_def)

theorem inbound_filter_witness:
  "runInbound exQueue (\<lambda>r. r) exReplica (OnPrevote \<lparr>inHeight = 5, inFrom = 3\<rparr>) =
     exReplica\<lparr>mq := [OnPrevote \<lparr>inHeight = 5, inFrom = 3\<rparr>]\<rparr>
   \<and> runInbound exQueue (\<lambda>r. r) exReplica (OnPrecommit \<lparr>inHeight = 4, inFrom = 3\<rparr>) = exReplica
   \<and> runInbound exQueue (\<lambda>r. r) exReplica (OnPropose \<lparr>inHeight = 7, inFrom = 9\<rparr>) = exReplica"
proof -
  have a: "procsAllowed exReplica = newProcsAllowed [1, 2, 3, 4]"
    "procCurrentHeight exReplica = 5" "mq exReplica = []"
    by (simp_all add: exReplica_def)
  show ?thesis
    using inbound_filter [OF a(1), of "OnPrevote \<lparr>inHeight = 5, inFrom = 3\<rparr>" exQueue "\<lambda>r. r"]
      inbound_filter [OF a(1), of "OnPrecommit \<lparr>inHeight = 4, inFrom = 3\<rparr>" exQueue "\<lambda>r. r"]
      inbound_filter [OF a(1), of "OnPropose \<lparr>inHeight = 7, inFrom = 9\<rparr>" exQueue "\<lambda>r. r"]
    by (simp add: a exQueue_def)
qed

end
